theory Spec2Isabelle
  imports Complex_Main "HOL-Library.AList" "HOL-Library.Char_ord" "HOL-Library.List_Lexorder"
begin

section \<open>Resilient API client and checkpoint manager\<close>

text \<open>
  A shallow embedding of \<^verbatim>\<open>api_client.py\<close> and \<^verbatim>\<open>checkpoint_manager.py\<close>.
  Python floats are idealised as reals; every reading of \<^verbatim>\<open>time.time()\<close> is an input
  of the function that takes it, so nothing is assumed about the clock unless a theorem
  says so. Exceptions are values of the type \<open>exn\<close>, returned on the left of a sum.
\<close>

datatype exn =
    CircuitOpen                    \<comment> \<open>\<^verbatim>\<open>Exception("Circuit breaker is OPEN")\<close>\<close>
  | RequestException "int option"  \<comment> \<open>a \<^verbatim>\<open>requests\<close> exception, with the status of \<^verbatim>\<open>e.response\<close> if it has one\<close>
  | OtherException string          \<comment> \<open>any other \<^verbatim>\<open>Exception\<close>\<close>
  | ZeroDivisionError
  | ValueError
  | OSError
  | OverflowError

subsection \<open>The world outside the program\<close>

text \<open>
  Library functions the program calls but does not define: \<^verbatim>\<open>hashlib.md5(...).hexdigest()\<close>,
  \<^verbatim>\<open>json.dumps(params, sort_keys=True)\<close>, \<^verbatim>\<open>datetime.isoformat()\<close> and the order in
  which \<^verbatim>\<open>list(s)\<close> enumerates a set. They are parameters of the model.
\<close>

record lib =
  md5_hexdigest :: "string \<Rightarrow> string"
  json_dumps :: "(string \<times> string) list \<Rightarrow> string"
  isoformat :: "real \<Rightarrow> string"
  list_of_set :: "string set \<Rightarrow> string list"

record error_entry =
  err_timestamp :: string
  err_type :: string
  err_message :: string
  err_context :: "(string \<times> string) list"

text \<open>
  The dataclass \<^verbatim>\<open>ExportState\<close>. The two exported-ID fields hold a list in the JSON form
  and a set in memory, hence the type parameter.
\<close>

record 'c ExportState =
  export_id :: string
  label :: string
  export_date :: string
  started_at :: string
  last_updated :: string
  profile :: string
  confluence_spaces_completed :: "string list"
  confluence_pages_exported :: 'c
  jira_projects_completed :: "string list"
  jira_issues_exported :: 'c
  current_operation :: "string option"
  current_space_key :: "string option"
  current_project_key :: "string option"
  current_batch_start :: int
  total_confluence_pages :: int
  total_jira_issues :: int
  errors_encountered :: "error_entry list"

record completion_data =
  completed_export_id :: string
  completed_at :: string
  completed_confluence_pages :: int
  completed_jira_issues :: int
  errors_count :: int

text \<open>
  A JSON value, as \<^verbatim>\<open>json.load\<close> and \<^verbatim>\<open>response.json()\<close> give it: \<open>None\<close> is the JSON
  \<^verbatim>\<open>null\<close>, which Python reads as \<^verbatim>\<open>None\<close>.
\<close>

type_synonym 'v json = "'v option"

record index_entry =
  timestamp :: real
  entry_url :: string
  entry_method :: string

text \<open>
  What a file holds. \<^verbatim>\<open>json.load\<close> of what \<^verbatim>\<open>json.dump\<close> wrote gives the value back, so a
  completely written file is modelled by the value in it; \<open>Partial\<close> is a file that was
  opened for writing (which truncates it) and not completely written: \<^verbatim>\<open>json.load\<close> raises
  on it. Each kind of file has its own directory or suffix in the program; a reader that
  finds a file of another kind than the one it expects treats it as it treats a file it
  cannot parse.
\<close>

datatype 'v doc =
    Partial
  | Index_doc "(string \<times> index_entry) list"
  | Payload_doc "'v json"
  | State_doc "string list ExportState"
  | Completion_doc completion_data

record 'v response =
  status_code :: int
  json_body :: "'v json option"   \<comment> \<open>\<open>None\<close>: \<^verbatim>\<open>response.json()\<close> raises\<close>

text \<open>
  The world: the successive readings of the clock and of \<^verbatim>\<open>random.random()\<close>, what the
  successive calls of \<^verbatim>\<open>session.request\<close> return or raise, the sleeps done so far (latest
  first), the files, the paths that cannot be written, and a counter of how often
  \<^verbatim>\<open>CircuitBreaker.call\<close> has entered the function it protects. Logging is left out.
\<close>

record 'v world =
  clock :: "nat \<Rightarrow> real"
  ticks :: nat
  random :: "nat \<Rightarrow> real"
  draws :: nat
  session :: "nat \<Rightarrow> exn + 'v response"
  http_calls :: nat
  slept :: "real list"
  files :: "string \<Rightarrow> 'v doc option"
  unwritable :: "string \<Rightarrow> bool"
  protected_calls :: nat

definition time_time :: "'v world \<Rightarrow> real \<times> 'v world" where
  "time_time w = (clock w (ticks w), w\<lparr>ticks := Suc (ticks w)\<rparr>)"

definition random_random :: "'v world \<Rightarrow> real \<times> 'v world" where
  "random_random w = (random w (draws w), w\<lparr>draws := Suc (draws w)\<rparr>)"

definition time_sleep :: "real \<Rightarrow> 'v world \<Rightarrow> 'v world" where
  "time_sleep d w = w\<lparr>slept := d # slept w\<rparr>"

text \<open>
  The steps that change files: \<^verbatim>\<open>open(p, 'w')\<close>, a completed \<^verbatim>\<open>json.dump\<close> with the close
  of the file, \<^verbatim>\<open>Path.replace\<close> and \<^verbatim>\<open>Path.unlink(missing_ok=True)\<close>.
\<close>

datatype 'v fs_op =
    Open_w string
  | Dump string "'v doc"
  | Replace string string
  | Unlink string

fun apply_op :: "'v fs_op \<Rightarrow> 'v world \<Rightarrow> exn + 'v world" where
  "apply_op (Open_w p) w =
     (if unwritable w p then Inl OSError else Inr (w\<lparr>files := (files w)(p \<mapsto> Partial)\<rparr>))"
| "apply_op (Dump p d) w =
     (if unwritable w p then Inl OSError else Inr (w\<lparr>files := (files w)(p \<mapsto> d)\<rparr>))"
| "apply_op (Replace src dst) w =
     (case files w src of
        None \<Rightarrow> Inl OSError
      | Some d \<Rightarrow> if unwritable w dst then Inl OSError
                  else Inr (w\<lparr>files := (files w)(src := None, dst \<mapsto> d)\<rparr>))"
| "apply_op (Unlink p) w =
     (if files w p \<noteq> None \<and> unwritable w p then Inl OSError
      else Inr (w\<lparr>files := (files w)(p := None)\<rparr>))"

text \<open>Running steps in order stops at the first that raises.\<close>

fun run_ops :: "'v fs_op list \<Rightarrow> 'v world \<Rightarrow> (exn + unit) \<times> 'v world" where
  "run_ops [] w = (Inr (), w)"
| "run_ops (x # xs) w =
     (case apply_op x w of Inl e \<Rightarrow> (Inl e, w) | Inr w1 \<Rightarrow> run_ops xs w1)"

text \<open>
  The states in which the files can be left when the process dies while it runs the
  steps: before the first step and after each step that was completed.
\<close>

fun crash_states :: "'v fs_op list \<Rightarrow> 'v world \<Rightarrow> 'v world list" where
  "crash_states [] w = [w]"
| "crash_states (x # xs) w =
     (case apply_op x w of Inl e \<Rightarrow> [w] | Inr w1 \<Rightarrow> w # crash_states xs w1)"

subsection \<open>RateLimiter\<close>

record RateLimitConfig =
  requests_per_second :: real
  burst_size :: int
  min_request_interval :: real

record RateLimiter =
  rl_config :: RateLimitConfig
  tokens :: real
  max_tokens :: real
  refill_rate :: real
  last_refill :: real

text \<open>\<^verbatim>\<open>RateLimiter.__init__\<close>; \<open>now\<close> is the reading of the clock it takes.\<close>

definition RateLimiter_init :: "RateLimitConfig \<Rightarrow> real \<Rightarrow> RateLimiter" where
  "RateLimiter_init cfg now =
     \<lparr>rl_config = cfg,
      tokens = of_int (burst_size cfg),
      max_tokens = of_int (burst_size cfg),
      refill_rate = requests_per_second cfg,
      last_refill = now\<rparr>"

text \<open>
  \<^verbatim>\<open>RateLimiter.acquire(tokens=n)\<close> at clock reading \<open>now\<close>. The refill is stored before
  the branch, so it is kept on both paths, also when the division raises.
\<close>

definition acquire :: "RateLimiter \<Rightarrow> real \<Rightarrow> int \<Rightarrow> (exn + real) \<times> RateLimiter" where
  "acquire rl now n =
     (let time_elapsed = now - last_refill rl;
          tokens_to_add = time_elapsed * refill_rate rl;
          rl1 = rl\<lparr>tokens := min (max_tokens rl) (tokens rl + tokens_to_add),
                    last_refill := now\<rparr>
      in if tokens rl1 \<ge> of_int n
         then (Inr 0, rl1\<lparr>tokens := tokens rl1 - of_int n\<rparr>)
         else (let tokens_needed = of_int n - tokens rl1
               in if refill_rate rl1 = 0 then (Inl ZeroDivisionError, rl1)
                  else (Inr (max (tokens_needed / refill_rate rl1)
                                 (min_request_interval (rl_config rl1))), rl1)))"

text \<open>A sequence of \<^verbatim>\<open>acquire\<close> calls, each with its clock reading and its request.\<close>

fun acquire_seq :: "RateLimiter \<Rightarrow> (real \<times> int) list \<Rightarrow> RateLimiter" where
  "acquire_seq rl [] = rl"
| "acquire_seq rl ((now, n) # cs) = acquire_seq (snd (acquire rl now n)) cs"

text \<open>The bucket is within its bounds, and its clock is not ahead of \<open>t\<close>.\<close>

definition bucket_ok :: "RateLimiter \<Rightarrow> real \<Rightarrow> bool" where
  "bucket_ok rl t \<longleftrightarrow>
     0 \<le> tokens rl \<and> tokens rl \<le> max_tokens rl \<and> 0 \<le> refill_rate rl \<and> last_refill rl \<le> t"

subsection \<open>CircuitBreaker\<close>

datatype State = CLOSED | OPEN | HALF_OPEN

record CircuitBreakerConfig =
  failure_threshold :: int
  recovery_timeout :: real

record CircuitBreaker =
  cb_config :: CircuitBreakerConfig
  failure_count :: int
  last_failure_time :: "real option"
  state :: State

definition CircuitBreaker_init :: "CircuitBreakerConfig \<Rightarrow> CircuitBreaker" where
  "CircuitBreaker_init cfg =
     \<lparr>cb_config = cfg, failure_count = 0, last_failure_time = None, state = CLOSED\<rparr>"

text \<open>
  \<^verbatim>\<open>_should_attempt_reset\<close>: \<^verbatim>\<open>self.last_failure_time and time.time() - ... >= ...\<close>. The
  \<^verbatim>\<open>and\<close> stops at a first operand that is false in Python, which \<^verbatim>\<open>None\<close> and the
  float \<^verbatim>\<open>0.0\<close> both are; the clock is read only otherwise.
\<close>

definition should_attempt_reset :: "CircuitBreaker \<Rightarrow> 'v world \<Rightarrow> bool \<times> 'v world" where
  "should_attempt_reset cb w =
     (case last_failure_time cb of
        None \<Rightarrow> (False, w)
      | Some t \<Rightarrow>
          if t = 0 then (False, w)
          else (let (now, w1) = time_time w
                in (now - t \<ge> recovery_timeout (cb_config cb), w1)))"

definition on_success :: "CircuitBreaker \<Rightarrow> CircuitBreaker" where
  "on_success cb = cb\<lparr>failure_count := 0, state := CLOSED\<rparr>"

definition on_failure :: "CircuitBreaker \<Rightarrow> 'v world \<Rightarrow> CircuitBreaker \<times> 'v world" where
  "on_failure cb w =
     (let cb1 = cb\<lparr>failure_count := failure_count cb + 1\<rparr>;
          (now, w1) = time_time w;
          cb2 = cb1\<lparr>last_failure_time := Some now\<rparr>
      in (if failure_count cb2 \<ge> failure_threshold (cb_config cb2)
          then cb2\<lparr>state := OPEN\<rparr> else cb2, w1))"

text \<open>
  \<^verbatim>\<open>CircuitBreaker.call(func)\<close>. The protected function is a function of the world; the
  counter \<open>protected_calls\<close> is stepped where the source has \<^verbatim>\<open>func(*args, **kwargs)\<close>.
\<close>

definition call ::
  "('v world \<Rightarrow> (exn + 'a) \<times> 'v world) \<Rightarrow> CircuitBreaker \<Rightarrow> 'v world
     \<Rightarrow> (exn + 'a) \<times> CircuitBreaker \<times> 'v world" where
  "call func cb w =
     (let (admitted, cb1, w1) =
            (if state cb = OPEN
             then (let (reset, w0) = should_attempt_reset cb w
                   in if reset then (True, cb\<lparr>state := HALF_OPEN\<rparr>, w0)
                      else (False, cb, w0))
             else (True, cb, w))
      in if \<not> admitted then (Inl CircuitOpen, cb1, w1)
         else (case func (w1\<lparr>protected_calls := Suc (protected_calls w1)\<rparr>) of
                 (Inr result, w2) \<Rightarrow> (Inr result, on_success cb1, w2)
               | (Inl e, w2) \<Rightarrow>
                   (let (cb2, w3) = on_failure cb1 w2 in (Inl e, cb2, w3))))"

text \<open>Calls one after the other, each with the function it protects.\<close>

fun call_seq ::
  "('v world \<Rightarrow> (exn + 'a) \<times> 'v world) list \<Rightarrow> CircuitBreaker \<Rightarrow> 'v world
     \<Rightarrow> CircuitBreaker \<times> 'v world" where
  "call_seq [] cb w = (cb, w)"
| "call_seq (f # fs) cb w = (case call f cb w of (r, cb1, w1) \<Rightarrow> call_seq fs cb1 w1)"

subsection \<open>RequestCache\<close>

record RequestCache =
  cache_dir :: string
  ttl :: int
  max_size :: int
  cache_index :: "(string \<times> index_entry) list"

text \<open>
  The index is a Python dictionary, kept here in its order of insertion: an assignment to
  a key that is present keeps its place, a new key goes last (\<open>AList.update\<close>). Paths are
  the strings the program builds.
\<close>

definition index_file :: "string \<Rightarrow> string" where
  "index_file dir = dir @ ''/index.json''"

definition cache_file :: "string \<Rightarrow> string \<Rightarrow> string" where
  "cache_file dir cache_key = dir @ ''/'' @ cache_key @ ''.json''"

text \<open>
  \<^verbatim>\<open>_load_index\<close>: a missing file and a file on which \<^verbatim>\<open>json.load\<close> raises both give the
  empty index.
\<close>

definition load_index :: "string \<Rightarrow> 'v world \<Rightarrow> (string \<times> index_entry) list" where
  "load_index dir w =
     (case files w (index_file dir) of Some (Index_doc idx) \<Rightarrow> idx | _ \<Rightarrow> [])"

definition RequestCache_init :: "string \<Rightarrow> int \<Rightarrow> int \<Rightarrow> 'v world \<Rightarrow> RequestCache" where
  "RequestCache_init dir t n w =
     \<lparr>cache_dir = dir, ttl = t, max_size = n, cache_index = load_index dir w\<rparr>"

text \<open>\<^verbatim>\<open>_save_index\<close>: \<^verbatim>\<open>with open(index_file, 'w') as f: json.dump(self.cache_index, f)\<close>.\<close>

definition save_index_ops :: "RequestCache \<Rightarrow> 'v fs_op list" where
  "save_index_ops c =
     [Open_w (index_file (cache_dir c)),
      Dump (index_file (cache_dir c)) (Index_doc (cache_index c))]"

definition save_index :: "RequestCache \<Rightarrow> 'v world \<Rightarrow> (exn + unit) \<times> 'v world" where
  "save_index c w = run_ops (save_index_ops c) w"

text \<open>
  \<^verbatim>\<open>_get_cache_key\<close>. \<^verbatim>\<open>if params:\<close> is false for \<^verbatim>\<open>None\<close> and for the empty dictionary.
\<close>

definition get_cache_key ::
  "lib \<Rightarrow> string \<Rightarrow> string \<Rightarrow> (string \<times> string) list option \<Rightarrow> string" where
  "get_cache_key L method url params =
     (let cache_data = method @ '':'' @ url;
          cache_data = (case params of
                          None \<Rightarrow> cache_data
                        | Some ps \<Rightarrow> if ps = [] then cache_data
                                     else cache_data @ '':'' @ json_dumps L ps)
      in md5_hexdigest L cache_data)"

text \<open>
  \<^verbatim>\<open>RequestCache.get\<close>. What \<^verbatim>\<open>json.load\<close> reads from the payload file is returned as it
  is, a \<^verbatim>\<open>null\<close> too. A payload file that is missing, or on which \<^verbatim>\<open>json.load\<close> raises,
  falls through to the removal of the index entry, as an expired entry does. The result
  \<open>None\<close> is Python's \<^verbatim>\<open>None\<close>.
\<close>

definition cache_get ::
  "lib \<Rightarrow> RequestCache \<Rightarrow> string \<Rightarrow> string \<Rightarrow> (string \<times> string) list option \<Rightarrow> 'v world
     \<Rightarrow> (exn + 'v json) \<times> RequestCache \<times> 'v world" where
  "cache_get L c method url params w =
     (let cache_key = get_cache_key L method url params
      in case map_of (cache_index c) cache_key of
           None \<Rightarrow> (Inr None, c, w)
         | Some entry \<Rightarrow>
             (let (now, w1) = time_time w;
                  hit = (if now - timestamp entry < of_int (ttl c)
                         then (case files w1 (cache_file (cache_dir c) cache_key) of
                                 Some (Payload_doc v) \<Rightarrow> Some v
                               | _ \<Rightarrow> None)
                         else None)
              in case hit of
                   Some v \<Rightarrow> (Inr v, c, w1)
                 | None \<Rightarrow>
                     (let c1 = c\<lparr>cache_index := AList.delete cache_key (cache_index c)\<rparr>
                      in case save_index c1 w1 of
                           (Inl e, w2) \<Rightarrow> (Inl e, c1, w2)
                         | (Inr u, w2) \<Rightarrow> (Inr None, c1, w2))))"

text \<open>
  \<^verbatim>\<open>min(keys, key=timestamp)\<close>: the first key, in the order of the dictionary, among those
  with the least timestamp; \<^verbatim>\<open>min\<close> of no keys raises \<^verbatim>\<open>ValueError\<close>.
\<close>

fun oldest :: "(string \<times> index_entry) list \<Rightarrow> (string \<times> index_entry) option" where
  "oldest [] = None"
| "oldest ((k, e) # rest) =
     (case oldest rest of
        None \<Rightarrow> Some (k, e)
      | Some (k1, e1) \<Rightarrow> if timestamp e \<le> timestamp e1 then Some (k, e) else Some (k1, e1))"

text \<open>
  \<^verbatim>\<open>RequestCache.set\<close>, first its block under \<^verbatim>\<open># Enforce max size\<close>: at capacity the
  oldest entry leaves the index and its payload file is unlinked.
\<close>

definition enforce_max_size ::
  "RequestCache \<Rightarrow> 'v world \<Rightarrow> (exn + unit) \<times> RequestCache \<times> 'v world" where
  "enforce_max_size c w =
     (if int (length (cache_index c)) \<ge> max_size c
      then (case oldest (cache_index c) of
              None \<Rightarrow> (Inl ValueError, c, w)
            | Some (oldest_key, e) \<Rightarrow>
                (let c0 = c\<lparr>cache_index := AList.delete oldest_key (cache_index c)\<rparr>
                 in case run_ops [Unlink (cache_file (cache_dir c) oldest_key)] w of
                      (r, w0) \<Rightarrow> (r, c0, w0)))
      else (Inr (), c, w))"

definition cache_set ::
  "lib \<Rightarrow> RequestCache \<Rightarrow> string \<Rightarrow> string \<Rightarrow> 'v json \<Rightarrow> (string \<times> string) list option
     \<Rightarrow> 'v world \<Rightarrow> (exn + unit) \<times> RequestCache \<times> 'v world" where
  "cache_set L c method url response params w =
     (let cache_key = get_cache_key L method url params
      in case enforce_max_size c w of
           (Inl e, c1, w1) \<Rightarrow> (Inl e, c1, w1)
         | (Inr u, c1, w1) \<Rightarrow>
             (case run_ops [Open_w (cache_file (cache_dir c) cache_key),
                            Dump (cache_file (cache_dir c) cache_key) (Payload_doc response)] w1 of
                (Inl e, w2) \<Rightarrow> (Inl e, c1, w2)
              | (Inr u, w2) \<Rightarrow>
                  (let (now, w3) = time_time w2;
                       c2 = c1\<lparr>cache_index :=
                               AList.update cache_key
                                 \<lparr>timestamp = now, entry_url = url, entry_method = method\<rparr>
                                 (cache_index c1)\<rparr>
                   in case save_index c2 w3 of (r, w4) \<Rightarrow> (r, c2, w4))))"

subsection \<open>ResilientAPIClient\<close>

record RetryConfig =
  max_retries :: int
  initial_delay :: real
  max_delay :: real
  exponential_base :: real
  jitter :: bool
  retry_on_status_codes :: "int list"

record ResilientAPIClient =
  retry :: RetryConfig
  rate_limiter :: RateLimiter
  circuit_breaker :: CircuitBreaker
  cache :: "RequestCache option"

definition upper_char :: "char \<Rightarrow> char" where
  "upper_char c =
     (let n = (of_char c :: nat) in if 97 \<le> n \<and> n \<le> 122 then char_of (n - 32) else c)"

definition upper :: "string \<Rightarrow> string" where
  "upper s = map upper_char s"

text \<open>
  The largest float. Floats are reals here, so the one thing kept of their range is what
  Python makes of a power beyond it: \<^verbatim>\<open>x ** n\<close> raises \<^verbatim>\<open>OverflowError\<close>.
\<close>

definition float_max :: real where
  "float_max = (2 - 1 / 2 ^ 52) * 2 ^ 1023"

text \<open>
  \<^verbatim>\<open>_calculate_backoff(attempt)\<close>; the loop passes attempts from \<open>0\<close> upwards. The power is
  taken first and raises when it is out of range; the product and the sum do not raise.
\<close>

definition calculate_backoff ::
  "RetryConfig \<Rightarrow> int \<Rightarrow> 'v world \<Rightarrow> (exn + real) \<times> 'v world" where
  "calculate_backoff rc attempt w =
     (if \<bar>exponential_base rc ^ nat attempt\<bar> > float_max then (Inl OverflowError, w)
      else (let delay = min (initial_delay rc * exponential_base rc ^ nat attempt) (max_delay rc)
            in if jitter rc
               then (let (r, w1) = random_random w;
                         jit = delay * 0.25 * (2 * r - 1)
                     in (Inr (max 0 (delay + jit)), w1))
               else (Inr (max 0 delay), w)))"

text \<open>
  \<^verbatim>\<open>_make_request\<close>: one call of \<^verbatim>\<open>session.request\<close>, then \<^verbatim>\<open>raise_for_status\<close>, which
  raises an \<^verbatim>\<open>HTTPError\<close> carrying the response for a status from 400 to 599.
\<close>

definition make_request :: "'v world \<Rightarrow> (exn + 'v response) \<times> 'v world" where
  "make_request w =
     (let w1 = w\<lparr>http_calls := Suc (http_calls w)\<rparr>
      in case session w (http_calls w) of
           Inl e \<Rightarrow> (Inl e, w1)
         | Inr resp \<Rightarrow>
             if 400 \<le> status_code resp \<and> status_code resp < 600
             then (Inl (RequestException (Some (status_code resp))), w1)
             else (Inr resp, w1))"

text \<open>\<^verbatim>\<open>Response.ok\<close>: \<^verbatim>\<open>raise_for_status\<close> does not raise.\<close>

definition ok :: "'v response \<Rightarrow> bool" where
  "ok resp \<longleftrightarrow> \<not> (400 \<le> status_code resp \<and> status_code resp < 600)"

text \<open>
  The body of the \<^verbatim>\<open>for attempt in range(max_retries + 1)\<close> loop of \<^verbatim>\<open>request\<close>, with
  the number of rounds left as first argument. Only a \<^verbatim>\<open>RequestException\<close> is caught; the
  error of the open circuit is a plain \<^verbatim>\<open>Exception\<close> and leaves the loop, and so does an
  error raised while the backoff is computed, inside the handler. The result \<open>Inr None\<close>
  is the \<^verbatim>\<open>None\<close> that Python returns when the function body ends.
\<close>

fun attempts ::
  "nat \<Rightarrow> lib \<Rightarrow> string \<Rightarrow> string \<Rightarrow> bool \<Rightarrow> (string \<times> string) list option \<Rightarrow> int \<Rightarrow> exn option
     \<Rightarrow> ResilientAPIClient \<Rightarrow> 'v world
     \<Rightarrow> (exn + 'v response option) \<times> ResilientAPIClient \<times> 'v world" where
  "attempts 0 L method url use_cache params attempt last_exception cl w =
     (case last_exception of
        Some e \<Rightarrow> (Inl e, cl, w)
      | None \<Rightarrow> (Inr None, cl, w))"
| "attempts (Suc k) L method url use_cache params attempt last_exception cl w =
     (case call make_request (circuit_breaker cl) w of
        (Inr resp, cb1, w1) \<Rightarrow>
          (let cl1 = cl\<lparr>circuit_breaker := cb1\<rparr>
           in case (if use_cache \<and> upper method = ''GET'' \<and> ok resp then cache cl1 else None) of
                None \<Rightarrow> (Inr (Some resp), cl1, w1)
              | Some c \<Rightarrow>
                  (case json_body resp of
                     None \<Rightarrow> (Inr (Some resp), cl1, w1)
                   | Some body \<Rightarrow>
                       (case cache_set L c method url body params w1 of
                          (r, c2, w2) \<Rightarrow> (Inr (Some resp), cl1\<lparr>cache := Some c2\<rparr>, w2))))
      | (Inl e, cb1, w1) \<Rightarrow>
          (let cl1 = cl\<lparr>circuit_breaker := cb1\<rparr>
           in case e of
                RequestException status \<Rightarrow>
                  if attempt < max_retries (retry cl1)
                  then (if (case status of
                              Some st \<Rightarrow> st \<notin> set (retry_on_status_codes (retry cl1))
                            | None \<Rightarrow> False)
                        then (Inl e, cl1, w1)
                        else (case calculate_backoff (retry cl1) attempt w1 of
                                (Inl e2, w2) \<Rightarrow> (Inl e2, cl1, w2)
                              | (Inr backoff, w2) \<Rightarrow>
                                  attempts k L method url use_cache params (attempt + 1) (Some e)
                                    cl1 (time_sleep backoff w2)))
                  else (Inl e, cl1, w1)
              | _ \<Rightarrow> (Inl e, cl1, w1)))"

text \<open>
  \<^verbatim>\<open>ResilientAPIClient.request\<close>: the cache, the rate limiter, then the loop. What the
  cache returns is a hit when it \<^verbatim>\<open>is not None\<close>, and gives a response made up with status
  200 and the cached body; a cached \<^verbatim>\<open>null\<close> is no hit.
\<close>

definition request ::
  "lib \<Rightarrow> string \<Rightarrow> string \<Rightarrow> bool \<Rightarrow> (string \<times> string) list option
     \<Rightarrow> ResilientAPIClient \<Rightarrow> 'v world
     \<Rightarrow> (exn + 'v response option) \<times> ResilientAPIClient \<times> 'v world" where
  "request L method url use_cache params cl w =
     (let (looked, cl1, w1) =
            (case (if use_cache \<and> upper method = ''GET'' then cache cl else None) of
               None \<Rightarrow> (Inr None, cl, w)
             | Some c \<Rightarrow>
                 (case cache_get L c method url params w of
                    (r, c1, w0) \<Rightarrow> (r, cl\<lparr>cache := Some c1\<rparr>, w0)))
      in case looked of
           Inl e \<Rightarrow> (Inl e, cl1, w1)
         | Inr (Some cached) \<Rightarrow>
             (Inr (Some \<lparr>status_code = 200, json_body = Some (Some cached)\<rparr>), cl1, w1)
         | Inr None \<Rightarrow>
             (let (now, w2) = time_time w1;
                  (waited, rl) = acquire (rate_limiter cl1) now 1;
                  cl2 = cl1\<lparr>rate_limiter := rl\<rparr>
              in case waited of
                   Inl e \<Rightarrow> (Inl e, cl2, w2)
                 | Inr wait_time \<Rightarrow>
                     attempts (nat (max_retries (retry cl2) + 1)) L method url use_cache params
                       0 None cl2 (if wait_time > 0 then time_sleep wait_time w2 else w2)))"

subsection \<open>CheckpointManager\<close>

text \<open>
  \<^verbatim>\<open>__post_init__\<close> on the JSON form, where the two exported-ID fields are lists, and
  \<^verbatim>\<open>to_dict\<close>, which turns them into lists again.
\<close>

definition post_init :: "string list ExportState \<Rightarrow> string set ExportState" where
  "post_init d =
     \<lparr>export_id = export_id d, label = label d, export_date = export_date d,
      started_at = started_at d, last_updated = last_updated d, profile = profile d,
      confluence_spaces_completed = confluence_spaces_completed d,
      confluence_pages_exported = set (confluence_pages_exported d),
      jira_projects_completed = jira_projects_completed d,
      jira_issues_exported = set (jira_issues_exported d),
      current_operation = current_operation d, current_space_key = current_space_key d,
      current_project_key = current_project_key d,
      current_batch_start = current_batch_start d,
      total_confluence_pages = total_confluence_pages d,
      total_jira_issues = total_jira_issues d,
      errors_encountered = errors_encountered d\<rparr>"

definition from_dict :: "string list ExportState \<Rightarrow> string set ExportState" where
  "from_dict data = post_init data"

definition to_dict :: "lib \<Rightarrow> string set ExportState \<Rightarrow> string list ExportState" where
  "to_dict L s =
     \<lparr>export_id = export_id s, label = label s, export_date = export_date s,
      started_at = started_at s, last_updated = last_updated s, profile = profile s,
      confluence_spaces_completed = confluence_spaces_completed s,
      confluence_pages_exported = list_of_set L (confluence_pages_exported s),
      jira_projects_completed = jira_projects_completed s,
      jira_issues_exported = list_of_set L (jira_issues_exported s),
      current_operation = current_operation s, current_space_key = current_space_key s,
      current_project_key = current_project_key s,
      current_batch_start = current_batch_start s,
      total_confluence_pages = total_confluence_pages s,
      total_jira_issues = total_jira_issues s,
      errors_encountered = errors_encountered s\<rparr>"

record CheckpointManager =
  checkpoint_dir :: string
  current_state :: "string set ExportState option"
  checkpoint_file :: "string option"
  save_counter :: int
  checkpoint_interval :: int

definition CheckpointManager_init :: "string \<Rightarrow> CheckpointManager" where
  "CheckpointManager_init dir =
     \<lparr>checkpoint_dir = dir, current_state = None, checkpoint_file = None,
      save_counter = 0, checkpoint_interval = 10\<rparr>"

text \<open>
  Paths: \<^verbatim>\<open>Path(dir) / file\<close> is \<^verbatim>\<open>file\<close> itself when that is absolute; \<^verbatim>\<open>with_suffix\<close>
  replaces the suffix of the last component, which is what follows its last dot when that
  dot is neither its first nor its last character, and raises on an empty name.
\<close>

definition path_join :: "string \<Rightarrow> string \<Rightarrow> string" where
  "path_join dir file =
     (case file of
        [] \<Rightarrow> dir
      | c # cs \<Rightarrow> if c = CHR ''/'' then file else dir @ ''/'' @ file)"

definition path_name :: "string \<Rightarrow> string" where
  "path_name p = rev (takeWhile (\<lambda>c. c \<noteq> CHR ''/'') (rev p))"

definition path_suffix :: "string \<Rightarrow> string" where
  "path_suffix name =
     (let ext = rev (takeWhile (\<lambda>c. c \<noteq> CHR ''.'') (rev name))
      in if CHR ''.'' \<in> set name \<and> ext \<noteq> [] \<and> length ext + 1 < length name
         then CHR ''.'' # ext else [])"

definition with_suffix :: "string \<Rightarrow> string \<Rightarrow> exn + string" where
  "with_suffix p suffix =
     (if path_name p = [] then Inl ValueError
      else Inr (take (length p - length (path_suffix (path_name p))) p @ suffix))"

definition datetime_now_isoformat :: "lib \<Rightarrow> 'v world \<Rightarrow> string \<times> 'v world" where
  "datetime_now_isoformat L w = (let (t, w1) = time_time w in (isoformat L t, w1))"

definition create_export_id :: "lib \<Rightarrow> string \<Rightarrow> string \<Rightarrow> 'v world \<Rightarrow> string \<times> 'v world" where
  "create_export_id L lbl date w =
     (let (timestamp_iso, w1) = datetime_now_isoformat L w;
          data = lbl @ '':'' @ date @ '':'' @ timestamp_iso
      in (take 12 (md5_hexdigest L data), w1))"

text \<open>
  \<^verbatim>\<open>save_checkpoint(force)\<close>. The counter is stepped before the interval is tested; the
  remainder is taken only when \<^verbatim>\<open>force\<close> is false, and raises for an interval of zero.
  Whatever is raised while the file is written is caught and logged.
\<close>

definition save_checkpoint ::
  "lib \<Rightarrow> bool \<Rightarrow> CheckpointManager \<Rightarrow> 'v world
     \<Rightarrow> (exn + unit) \<times> CheckpointManager \<times> 'v world" where
  "save_checkpoint L force m w =
     (case (current_state m, checkpoint_file m) of
        (Some st, Some file) \<Rightarrow>
          (let m1 = m\<lparr>save_counter := save_counter m + 1\<rparr>
           in if \<not> force \<and> checkpoint_interval m1 = 0 then (Inl ZeroDivisionError, m1, w)
              else if \<not> force \<and> save_counter m1 mod checkpoint_interval m1 \<noteq> 0
              then (Inr (), m1, w)
              else (let (now, w1) = datetime_now_isoformat L w;
                        st1 = st\<lparr>last_updated := now\<rparr>;
                        m2 = m1\<lparr>current_state := Some st1\<rparr>
                    in case with_suffix file ''.tmp'' of
                         Inl e \<Rightarrow> (Inr (), m2, w1)
                       | Inr temp_file \<Rightarrow>
                           (case run_ops [Open_w temp_file,
                                          Dump temp_file (State_doc (to_dict L st1)),
                                          Replace temp_file file] w1 of
                              (r, w2) \<Rightarrow> (Inr (), m2, w2))))
      | _ \<Rightarrow> (Inr (), m, w))"

text \<open>
  \<^verbatim>\<open>start_new_export\<close>. The state is built with empty sets and, by \<^verbatim>\<open>__post_init__\<close>, an
  empty list of errors; the save is requested without \<^verbatim>\<open>force\<close>.
\<close>

definition start_new_export ::
  "lib \<Rightarrow> CheckpointManager \<Rightarrow> string \<Rightarrow> string \<Rightarrow> string \<Rightarrow> 'v world
     \<Rightarrow> (exn + string set ExportState) \<times> CheckpointManager \<times> 'v world" where
  "start_new_export L m lbl date prof w =
     (let (new_id, w1) = create_export_id L lbl date w;
          (started, w2) = datetime_now_isoformat L w1;
          (updated, w3) = datetime_now_isoformat L w2;
          st = \<lparr>export_id = new_id, label = lbl, export_date = date,
                started_at = started, last_updated = updated, profile = prof,
                confluence_spaces_completed = [],
                confluence_pages_exported = {},
                jira_projects_completed = [],
                jira_issues_exported = {},
                current_operation = None, current_space_key = None,
                current_project_key = None, current_batch_start = 0,
                total_confluence_pages = 0, total_jira_issues = 0,
                errors_encountered = []\<rparr>;
          m1 = m\<lparr>current_state := Some st,
                  checkpoint_file :=
                    Some (path_join (checkpoint_dir m) (''checkpoint_'' @ new_id @ ''.json''))\<rparr>
      in case save_checkpoint L False m1 w3 of
           (Inl e, m2, w4) \<Rightarrow> (Inl e, m2, w4)
         | (Inr u, m2, w4) \<Rightarrow>
             (case current_state m2 of
                Some st2 \<Rightarrow> (Inr st2, m2, w4)
              | None \<Rightarrow> (Inr st, m2, w4)))"

text \<open>
  \<^verbatim>\<open>resume_export\<close>. Only a file that holds an export state loads; on any other the
  \<^verbatim>\<open>try\<close> block raises (in \<^verbatim>\<open>json.load\<close> or in the constructor) and \<^verbatim>\<open>None\<close> is returned.
\<close>

definition resume_export ::
  "CheckpointManager \<Rightarrow> string \<Rightarrow> 'v world
     \<Rightarrow> string set ExportState option \<times> CheckpointManager \<times> 'v world" where
  "resume_export m file w =
     (let checkpoint_path =
            (if files w file \<noteq> None then file else path_join (checkpoint_dir m) file)
      in case files w checkpoint_path of
           None \<Rightarrow> (None, m, w)
         | Some (State_doc data) \<Rightarrow>
             (let st = from_dict data
              in (Some st, m\<lparr>current_state := Some st, checkpoint_file := Some checkpoint_path\<rparr>, w))
         | Some other \<Rightarrow> (None, m, w))"

definition update_confluence_progress ::
  "lib \<Rightarrow> CheckpointManager \<Rightarrow> string \<Rightarrow> string \<Rightarrow> 'v world
     \<Rightarrow> (exn + unit) \<times> CheckpointManager \<times> 'v world" where
  "update_confluence_progress L m space_key page_id w =
     (case current_state m of
        None \<Rightarrow> (Inr (), m, w)
      | Some st \<Rightarrow>
          save_checkpoint L False
            (m\<lparr>current_state :=
                 Some (st\<lparr>current_operation := Some ''confluence'',
                          current_space_key := Some space_key,
                          confluence_pages_exported :=
                            insert page_id (confluence_pages_exported st)\<rparr>)\<rparr>) w)"

definition mark_confluence_space_complete ::
  "lib \<Rightarrow> CheckpointManager \<Rightarrow> string \<Rightarrow> 'v world
     \<Rightarrow> (exn + unit) \<times> CheckpointManager \<times> 'v world" where
  "mark_confluence_space_complete L m space_key w =
     (case current_state m of
        None \<Rightarrow> (Inr (), m, w)
      | Some st \<Rightarrow>
          save_checkpoint L True
            (m\<lparr>current_state :=
                 Some (if space_key \<notin> set (confluence_spaces_completed st)
                       then st\<lparr>confluence_spaces_completed :=
                                 confluence_spaces_completed st @ [space_key]\<rparr>
                       else st)\<rparr>) w)"

definition update_jira_progress ::
  "lib \<Rightarrow> CheckpointManager \<Rightarrow> string \<Rightarrow> string \<Rightarrow> 'v world
     \<Rightarrow> (exn + unit) \<times> CheckpointManager \<times> 'v world" where
  "update_jira_progress L m project_key issue_key w =
     (case current_state m of
        None \<Rightarrow> (Inr (), m, w)
      | Some st \<Rightarrow>
          save_checkpoint L False
            (m\<lparr>current_state :=
                 Some (st\<lparr>current_operation := Some ''jira'',
                          current_project_key := Some project_key,
                          jira_issues_exported :=
                            insert issue_key (jira_issues_exported st)\<rparr>)\<rparr>) w)"

definition mark_jira_project_complete ::
  "lib \<Rightarrow> CheckpointManager \<Rightarrow> string \<Rightarrow> 'v world
     \<Rightarrow> (exn + unit) \<times> CheckpointManager \<times> 'v world" where
  "mark_jira_project_complete L m project_key w =
     (case current_state m of
        None \<Rightarrow> (Inr (), m, w)
      | Some st \<Rightarrow>
          save_checkpoint L True
            (m\<lparr>current_state :=
                 Some (if project_key \<notin> set (jira_projects_completed st)
                       then st\<lparr>jira_projects_completed :=
                                 jira_projects_completed st @ [project_key]\<rparr>
                       else st)\<rparr>) w)"

definition record_error ::
  "lib \<Rightarrow> CheckpointManager \<Rightarrow> string \<Rightarrow> string \<Rightarrow> (string \<times> string) list \<Rightarrow> 'v world
     \<Rightarrow> (exn + unit) \<times> CheckpointManager \<times> 'v world" where
  "record_error L m error_type error_message context w =
     (case current_state m of
        None \<Rightarrow> (Inr (), m, w)
      | Some st \<Rightarrow>
          (let (now, w1) = datetime_now_isoformat L w;
               error_entry = \<lparr>err_timestamp = now, err_type = error_type,
                               err_message = error_message, err_context = context\<rparr>
           in save_checkpoint L True
                (m\<lparr>current_state :=
                     Some (st\<lparr>errors_encountered := errors_encountered st @ [error_entry]\<rparr>)\<rparr>)
                w1))"

text \<open>
  The membership queries. With no current state Python returns that \<^verbatim>\<open>None\<close>, which is
  false as a condition; it is \<open>False\<close> here.
\<close>

definition is_confluence_page_exported :: "CheckpointManager \<Rightarrow> string \<Rightarrow> bool" where
  "is_confluence_page_exported m page_id =
     (case current_state m of
        None \<Rightarrow> False
      | Some st \<Rightarrow> page_id \<in> confluence_pages_exported st)"

definition is_jira_issue_exported :: "CheckpointManager \<Rightarrow> string \<Rightarrow> bool" where
  "is_jira_issue_exported m issue_key =
     (case current_state m of
        None \<Rightarrow> False
      | Some st \<Rightarrow> issue_key \<in> jira_issues_exported st)"

text \<open>
  \<^verbatim>\<open>complete_export\<close>. The marker file is written outside any \<^verbatim>\<open>try\<close>, so an error
  in writing it is raised to the caller.
\<close>

definition complete_export ::
  "lib \<Rightarrow> CheckpointManager \<Rightarrow> 'v world \<Rightarrow> (exn + unit) \<times> CheckpointManager \<times> 'v world" where
  "complete_export L m w =
     (case current_state m of
        None \<Rightarrow> (Inr (), m, w)
      | Some st \<Rightarrow>
          (case save_checkpoint L True (m\<lparr>current_state := Some (st\<lparr>current_operation := None\<rparr>)\<rparr>) w of
             (Inl e, m1, w1) \<Rightarrow> (Inl e, m1, w1)
           | (Inr u, m1, w1) \<Rightarrow>
               (case (checkpoint_file m1, current_state m1) of
                  (Some file, Some st1) \<Rightarrow>
                    (case with_suffix file ''.complete'' of
                       Inl e \<Rightarrow> (Inl e, m1, w1)
                     | Inr completion_file \<Rightarrow>
                         (let (now, w2) = datetime_now_isoformat L w1;
                              data = \<lparr>completed_export_id = export_id st1,
                                      completed_at = now,
                                      completed_confluence_pages =
                                        int (card (confluence_pages_exported st1)),
                                      completed_jira_issues =
                                        int (card (jira_issues_exported st1)),
                                      errors_count = int (length (errors_encountered st1))\<rparr>
                          in case run_ops [Open_w completion_file,
                                           Dump completion_file (Completion_doc data)] w2 of
                               (r, w3) \<Rightarrow> (r, m1, w3)))
                | _ \<Rightarrow> (Inl (OtherException ''AttributeError''), m1, w1))))"

subsection \<open>Properties and example inputs\<close>

definition demo_limits :: RateLimitConfig where
  "demo_limits = \<lparr>requests_per_second = 10, burst_size = 20, min_request_interval = 1 / 10\<rparr>"

definition demo_calls :: "(real \<times> int) list" where
  "demo_calls = [(100, 15), (1002 / 10, 10), (101, 3)]"

definition demo_world :: "string world" where
  "demo_world =
     \<lparr>clock = (\<lambda>k. 1000 + of_nat k), ticks = 0,
      random = (\<lambda>k. 1 / 2), draws = 0,
      session = (\<lambda>k. Inr \<lparr>status_code = 503, json_body = None\<rparr>), http_calls = 0,
      slept = [], files = (\<lambda>p. None), unwritable = (\<lambda>p. False), protected_calls = 0\<rparr>"

definition fail_func :: "string world \<Rightarrow> (exn + string) \<times> string world" where
  "fail_func w = (Inl (OtherException ''Test failure''), w)"

definition success_func :: "string world \<Rightarrow> (exn + string) \<times> string world" where
  "success_func w = (Inr ''success'', w)"

definition demo_breaker :: CircuitBreaker where
  "demo_breaker = CircuitBreaker_init \<lparr>failure_threshold = 2, recovery_timeout = 60\<rparr>"

definition opened_breaker :: CircuitBreaker where
  "opened_breaker =
     \<lparr>cb_config = \<lparr>failure_threshold = 2, recovery_timeout = 60\<rparr>,
      failure_count = 2, last_failure_time = Some 1001, state = OPEN\<rparr>"

text \<open>
  Atomic replacement of the file at \<open>p\<close> by a run of steps: wherever the run is cut, the
  file holds what it held before the run or what it holds after it.
\<close>

definition survives_crash :: "string \<Rightarrow> 'v fs_op list \<Rightarrow> 'v world \<Rightarrow> bool" where
  "survives_crash p ops w \<longleftrightarrow>
     list_all (\<lambda>s. files s p = files w p \<or> files s p = files (snd (run_ops ops w)) p)
       (crash_states ops w)"


text \<open>
  A serializer for the examples that is one to one: every character is marked, every
  string and every list is closed.
\<close>

fun demo_quote :: "string \<Rightarrow> string" where
  "demo_quote [] = ''.''"
| "demo_quote (c # s) = CHR ''+'' # c # demo_quote s"

fun demo_dumps :: "(string \<times> string) list \<Rightarrow> string" where
  "demo_dumps [] = ''.''"
| "demo_dumps ((k, v) # ps) = CHR ''+'' # demo_quote k @ demo_quote v @ demo_dumps ps"

text \<open>Stand-ins for the library functions, for the examples only.\<close>

definition demo_lib :: lib where
  "demo_lib =
     \<lparr>md5_hexdigest = (\<lambda>s. ''md5-'' @ s),
      json_dumps = demo_dumps,
      isoformat = (\<lambda>t. ''2024-01-01T00:00:00''),
      list_of_set = (\<lambda>S. sorted_list_of_set S)\<rparr>"

definition demo_cache :: RequestCache where
  "demo_cache = \<lparr>cache_dir = ''cache'', ttl = 300, max_size = 3, cache_index = []\<rparr>"

text \<open>The cache and the world after \<^verbatim>\<open>set("GET", "u", "v")\<close> at clock reading 1000.\<close>

definition cached_cache :: RequestCache where
  "cached_cache =
     demo_cache\<lparr>cache_index :=
       [(''md5-GET:u'', \<lparr>timestamp = 1000, entry_url = ''u'', entry_method = ''GET''\<rparr>)]\<rparr>"

definition cached_world :: "string world" where
  "cached_world =
     demo_world\<lparr>ticks := 1,
       files := (files demo_world)
         (''cache/md5-GET:u.json'' \<mapsto> Payload_doc (Some ''v''),
          ''cache/index.json'' \<mapsto>
            Index_doc [(''md5-GET:u'',
              \<lparr>timestamp = 1000, entry_url = ''u'', entry_method = ''GET''\<rparr>)])\<rparr>"

text \<open>A checkpoint file with two exported pages and one exported issue.\<close>

definition demo_checkpoint :: "string list ExportState" where
  "demo_checkpoint =
     \<lparr>export_id = ''abc'', label = ''L'', export_date = ''2024-01-01'',
      started_at = ''2024-01-01T00:00:00'', last_updated = ''2024-01-01T00:05:00'',
      profile = ''balanced'',
      confluence_spaces_completed = [''DOCS''],
      confluence_pages_exported = [''123'', ''456''],
      jira_projects_completed = [],
      jira_issues_exported = [''PROJ-1''],
      current_operation = Some ''jira'', current_space_key = Some ''DOCS'',
      current_project_key = Some ''PROJ'', current_batch_start = 0,
      total_confluence_pages = 0, total_jira_issues = 0,
      errors_encountered = []\<rparr>"

definition resume_world :: "string world" where
  "resume_world =
     demo_world\<lparr>files := (files demo_world)
       (''.checkpoints/checkpoint_abc.json'' \<mapsto> State_doc demo_checkpoint)\<rparr>"


text \<open>
  Clients as \<^verbatim>\<open>__init__\<close> builds them from the profiles \<^verbatim>\<open>conservative\<close> (five retries)
  and \<^verbatim>\<open>balanced\<close> (three retries) of \<^verbatim>\<open>exporter_config.py\<close>, both with the default
  breaker (threshold five, timeout 60 seconds) and the default cache, still empty; and a
  world where the clock is read every ten seconds and every response has status 503.
\<close>

definition default_cache :: RequestCache where
  "default_cache =
     \<lparr>cache_dir = ''.cache/context_exporter'', ttl = 300, max_size = 1000, cache_index = []\<rparr>"


definition balanced_client :: ResilientAPIClient where
  "balanced_client =
     \<lparr>retry = \<lparr>max_retries = 3, initial_delay = 1, max_delay = 60, exponential_base = 2,
                jitter = True, retry_on_status_codes = [429, 500, 502, 503, 504]\<rparr>,
      rate_limiter = RateLimiter_init demo_limits 990,
      circuit_breaker = CircuitBreaker_init \<lparr>failure_threshold = 5, recovery_timeout = 60\<rparr>,
      cache = Some default_cache\<rparr>"

definition slow_world :: "string world" where
  "slow_world = demo_world\<lparr>clock := (\<lambda>k. 1000 + 10 * of_nat k)\<rparr>"

text \<open>The client \<open>balanced_client\<close> with a base whose square is out of the range of floats.\<close>

definition huge_base_client :: ResilientAPIClient where
  "huge_base_client =
     balanced_client\<lparr>retry := (retry balanced_client)\<lparr>exponential_base := 10 ^ 200\<rparr>\<rparr>"

text \<open>
  Limiters and calls off the bounds: a clock that steps back one second, a negative
  rate, a negative burst size.
\<close>

definition backward_calls :: "(real \<times> int) list" where
  "backward_calls = [(100, 20), (99, 1)]"

definition forward_calls :: "(real \<times> int) list" where
  "forward_calls = [(100, 20), (101, 1)]"

definition negative_rate_limits :: RateLimitConfig where
  "negative_rate_limits =
     \<lparr>requests_per_second = - 10, burst_size = 20, min_request_interval = 1 / 10\<rparr>"

definition negative_burst_limits :: RateLimitConfig where
  "negative_burst_limits =
     \<lparr>requests_per_second = 10, burst_size = - 1, min_request_interval = 1 / 10\<rparr>"



subsection \<open>RateLimiter: the token bucket bound\<close>

lemma acquire_keeps_rate:
  "refill_rate (snd (acquire rl now n)) = refill_rate rl \<and>
   max_tokens (snd (acquire rl now n)) = max_tokens rl \<and>
   last_refill (snd (acquire rl now n)) = now"
  by (simp add: acquire_def Let_def)

lemma acquire_tokens_cases:
  "tokens (snd (acquire rl now n)) =
     (let m = min (max_tokens rl) (tokens rl + (now - last_refill rl) * refill_rate rl)
      in if of_int n \<le> m then m - of_int n else m)"
  by (simp add: acquire_def Let_def)

lemma acquire_upper:
  assumes "0 \<le> n"
  shows "tokens (snd (acquire rl now n)) \<le> max_tokens rl"
proof -
  define m where "m = min (max_tokens rl) (tokens rl + (now - last_refill rl) * refill_rate rl)"
  have "m \<le> max_tokens rl" unfolding m_def by simp
  moreover have "0 \<le> (of_int n :: real)" using assms by simp
  moreover have "tokens (snd (acquire rl now n)) = (if of_int n \<le> m then m - of_int n else m)"
    unfolding m_def acquire_tokens_cases Let_def by (rule refl)
  ultimately show ?thesis by simp
qed

lemma acquire_lower:
  assumes "bucket_ok rl now"
  shows "0 \<le> tokens (snd (acquire rl now n))"
proof -
  define m where "m = min (max_tokens rl) (tokens rl + (now - last_refill rl) * refill_rate rl)"
  have "0 \<le> (now - last_refill rl) * refill_rate rl"
    using assms by (simp add: bucket_ok_def)
  then have "0 \<le> m"
    using assms unfolding m_def bucket_ok_def by linarith
  moreover have "tokens (snd (acquire rl now n)) = (if of_int n \<le> m then m - of_int n else m)"
    unfolding m_def acquire_tokens_cases Let_def by (rule refl)
  ultimately show ?thesis by simp
qed

lemma acquire_bucket_ok:
  assumes "bucket_ok rl now" and "0 \<le> n" and "now \<le> t"
  shows "bucket_ok (snd (acquire rl now n)) t"
  using acquire_lower [OF assms(1), of n] acquire_upper [OF assms(2), of rl now]
        acquire_keeps_rate [of rl now n] assms
  by (simp add: bucket_ok_def)

lemma acquire_seq_bucket_ok:
  assumes "bucket_ok rl t0" and "sorted (t0 # map fst cs)" and "\<forall>c \<in> set cs. 0 \<le> snd c"
  shows "bucket_ok (acquire_seq rl cs) (last (t0 # map fst cs))"
  using assms
proof (induction cs arbitrary: rl t0)
  case Nil
  then show ?case by simp
next
  case (Cons c cs)
  obtain now n where c: "c = (now, n)" by (cases c)
  have le: "t0 \<le> now" using Cons.prems(2) c by simp
  have "bucket_ok rl now"
    using Cons.prems(1) le by (simp add: bucket_ok_def)
  then have ok: "bucket_ok (snd (acquire rl now n)) now"
    using Cons.prems(3) c by (intro acquire_bucket_ok) auto
  have "bucket_ok (acquire_seq (snd (acquire rl now n)) cs) (last (now # map fst cs))"
    using Cons.prems c by (intro Cons.IH [OF ok]) auto
  then show ?case using c by simp
qed

lemma acquire_seq_upper:
  assumes "tokens rl \<le> max_tokens rl" and "\<forall>c \<in> set cs. 0 \<le> snd c"
  shows "tokens (acquire_seq rl cs) \<le> max_tokens (acquire_seq rl cs)"
  using assms
proof (induction cs arbitrary: rl)
  case Nil
  then show ?case by simp
next
  case (Cons c cs)
  obtain now n where c: "c = (now, n)" by (cases c)
  have "0 \<le> n" using Cons.prems(2) c by simp
  then have "tokens (snd (acquire rl now n)) \<le> max_tokens (snd (acquire rl now n))"
    using acquire_upper [of n rl now] acquire_keeps_rate [of rl now n] by simp
  then have "tokens (acquire_seq (snd (acquire rl now n)) cs)
               \<le> max_tokens (acquire_seq (snd (acquire rl now n)) cs)"
    using Cons.prems(2) by (intro Cons.IH) auto
  then show ?case using c by simp
qed

text \<open>
  Claim C8, as the specification states it, fails for the lower bound. The requests
  are not negative in each of three runs: one where the second reading of the clock is a
  second before the first, one with a negative rate, and, before any call, one with a
  negative burst size. The tokens are negative after each.
\<close>

theorem tokens_negative:
  "list_all (\<lambda>c. 0 \<le> snd c) backward_calls \<and> list_all (\<lambda>c. 0 \<le> snd c) forward_calls \<and>
   tokens (acquire_seq (RateLimiter_init demo_limits 100) backward_calls) = - 10 \<and>
   tokens (acquire_seq (RateLimiter_init negative_rate_limits 100) forward_calls) = - 10 \<and>
   tokens (acquire_seq (RateLimiter_init negative_burst_limits 100) []) = - 1"
  by (simp add: backward_calls_def forward_calls_def demo_limits_def negative_rate_limits_def
        negative_burst_limits_def RateLimiter_init_def acquire_def Let_def)

text \<open>
  Claim C8, amended. Take a limiter built at clock reading \<open>t0\<close> and any sequence of
  \<^verbatim>\<open>acquire\<close> calls whose requests are not negative. After every one of the calls (and
  before the first) the tokens are at most \<open>max_tokens\<close>, whatever the clock and the
  configuration; and they are at least \<open>0\<close> when the burst size and the rate are not
  negative and the clock readings do not go back.
\<close>

theorem tokens_within_bounds:
  assumes "\<forall>c \<in> set cs. 0 \<le> snd c" and "k \<le> length cs"
  shows "tokens (acquire_seq (RateLimiter_init cfg t0) (take k cs))
           \<le> max_tokens (acquire_seq (RateLimiter_init cfg t0) (take k cs)) \<and>
         (0 \<le> burst_size cfg \<and> 0 \<le> requests_per_second cfg \<and> sorted (t0 # map fst cs) \<longrightarrow>
            0 \<le> tokens (acquire_seq (RateLimiter_init cfg t0) (take k cs)))"
proof -
  have req: "\<forall>c \<in> set (take k cs). 0 \<le> snd c"
    using assms(1) by (meson in_set_takeD)
  have "tokens (RateLimiter_init cfg t0) \<le> max_tokens (RateLimiter_init cfg t0)"
    by (simp add: RateLimiter_init_def)
  then have upper: "tokens (acquire_seq (RateLimiter_init cfg t0) (take k cs))
           \<le> max_tokens (acquire_seq (RateLimiter_init cfg t0) (take k cs))"
    using req by (rule acquire_seq_upper)
  have lower: "0 \<le> tokens (acquire_seq (RateLimiter_init cfg t0) (take k cs))"
    if cfg: "0 \<le> burst_size cfg" "0 \<le> requests_per_second cfg"
      and clock: "sorted (t0 # map fst cs)"
  proof -
    have init: "bucket_ok (RateLimiter_init cfg t0) t0"
      using cfg by (simp add: bucket_ok_def RateLimiter_init_def)
    have "t0 # map fst (take k cs) = take (Suc k) (t0 # map fst cs)"
      by (simp add: take_map)
    then have "sorted (t0 # map fst (take k cs))"
      using clock sorted_wrt_take by metis
    then have "bucket_ok (acquire_seq (RateLimiter_init cfg t0) (take k cs))
                 (last (t0 # map fst (take k cs)))"
      using req by (intro acquire_seq_bucket_ok [OF init])
    then show ?thesis by (simp add: bucket_ok_def)
  qed
  show ?thesis using upper lower by blast
qed

theorem tokens_within_bounds_witness:
  "list_all (\<lambda>c. 0 \<le> snd c) demo_calls \<and> 3 \<le> length demo_calls \<and>
   0 \<le> burst_size demo_limits \<and> 0 \<le> requests_per_second demo_limits \<and>
   sorted (100 # map fst demo_calls) \<and>
   tokens (acquire_seq (RateLimiter_init demo_limits 100) (take 3 demo_calls))
     \<le> max_tokens (acquire_seq (RateLimiter_init demo_limits 100) (take 3 demo_calls)) \<and>
   0 \<le> tokens (acquire_seq (RateLimiter_init demo_limits 100) (take 3 demo_calls))"
proof -
  have a: "\<forall>c \<in> set demo_calls. 0 \<le> snd c" "3 \<le> length demo_calls"
    by (simp_all add: demo_calls_def)
  have b: "0 \<le> burst_size demo_limits" "0 \<le> requests_per_second demo_limits"
    "sorted (100 # map fst demo_calls)"
    by (simp_all add: demo_limits_def demo_calls_def)
  from tokens_within_bounds [OF a, of demo_limits 100] show ?thesis
    using a b by (simp add: list_all_iff)
qed

text \<open>What the run of the example leaves in the bucket.\<close>

lemma demo_calls_tokens:
  "tokens (acquire_seq (RateLimiter_init demo_limits 100) demo_calls) = 12"
  by (simp add: demo_limits_def demo_calls_def RateLimiter_init_def acquire_def Let_def)

subsection \<open>CircuitBreaker: opening and recovery\<close>

lemma call_rejects:
  assumes "state cb = OPEN"
      and "\<forall>t. last_failure_time cb = Some t \<longrightarrow>
             clock w (ticks w) - t < recovery_timeout (cb_config cb)"
  shows "fst (call f cb w) = Inl CircuitOpen \<and> fst (snd (call f cb w)) = cb \<and>
         protected_calls (snd (snd (call f cb w))) = protected_calls w"
  using assms
  by (cases "last_failure_time cb")
     (simp_all add: call_def should_attempt_reset_def time_time_def Let_def)

lemma call_failure:
  assumes "state cb \<noteq> OPEN" and "isl (fst (f (w\<lparr>protected_calls := Suc (protected_calls w)\<rparr>)))"
  shows "failure_count (fst (snd (call f cb w))) = failure_count cb + 1 \<and>
         cb_config (fst (snd (call f cb w))) = cb_config cb \<and>
         state (fst (snd (call f cb w))) =
           (if failure_count cb + 1 \<ge> failure_threshold (cb_config cb) then OPEN else state cb)"
proof -
  obtain r w2 where f: "f (w\<lparr>protected_calls := Suc (protected_calls w)\<rparr>) = (r, w2)"
    by (cases "f (w\<lparr>protected_calls := Suc (protected_calls w)\<rparr>)")
  then obtain e where r: "r = Inl e" using assms(2) by (cases r) auto
  show ?thesis
    using assms(1) f r
    by (simp add: call_def on_failure_def time_time_def Let_def)
qed

lemma call_seq_append:
  "call_seq (fs @ gs) cb w = (case call_seq fs cb w of (cb1, w1) \<Rightarrow> call_seq gs cb1 w1)"
  by (induction fs arbitrary: cb w) (auto split: prod.splits)

lemma call_seq_failures:
  assumes "state cb = CLOSED"
      and "\<forall>f \<in> set fs. \<forall>w. isl (fst (f w))"
      and "failure_count cb + int (length fs) < failure_threshold (cb_config cb)"
  shows "state (fst (call_seq fs cb w)) = CLOSED \<and>
         failure_count (fst (call_seq fs cb w)) = failure_count cb + int (length fs) \<and>
         cb_config (fst (call_seq fs cb w)) = cb_config cb"
  using assms
proof (induction fs arbitrary: cb w)
  case Nil
  then show ?case by simp
next
  case (Cons f fs)
  obtain r cb1 w1 where c: "call f cb w = (r, cb1, w1)" by (cases "call f cb w")
  have "isl (fst (f (w\<lparr>protected_calls := Suc (protected_calls w)\<rparr>)))"
    using Cons.prems(2) by simp
  with call_failure [of cb f w] Cons.prems(1,3) c
  have cb1: "failure_count cb1 = failure_count cb + 1" "cb_config cb1 = cb_config cb"
    "state cb1 = CLOSED"
    by auto
  have "state (fst (call_seq fs cb1 w1)) = CLOSED \<and>
        failure_count (fst (call_seq fs cb1 w1)) = failure_count cb1 + int (length fs) \<and>
        cb_config (fst (call_seq fs cb1 w1)) = cb_config cb1"
    using Cons.prems cb1 by (intro Cons.IH) auto
  then show ?case using c cb1 by simp
qed

lemma demo_breaker_opened:
  "call_seq [fail_func, fail_func] demo_breaker demo_world =
     (opened_breaker, demo_world\<lparr>ticks := 2, protected_calls := 2\<rparr>)"
  by (simp add: call_def on_failure_def time_time_def Let_def fail_func_def demo_breaker_def
        CircuitBreaker_init_def demo_world_def opened_breaker_def)

text \<open>
  Claim C6. Take a breaker that is \<open>CLOSED\<close> with no failure counted and a threshold
  \<open>N \<ge> 1\<close>, and \<open>N\<close> calls in a row whose protected function raises. The breaker is still
  \<open>CLOSED\<close> after fewer than \<open>N\<close> of them and \<open>OPEN\<close> after the \<open>N\<close>-th. A next call whose
  clock reading is less than \<open>recovery_timeout\<close> after \<open>last_failure_time\<close> raises the error
  of the open circuit, does not enter the protected function and leaves the breaker
  \<open>OPEN\<close>. The last conjunct is the same for any breaker that is \<open>OPEN\<close>.
\<close>

theorem breaker_opens_at_threshold_and_rejects:
  assumes "state cb = CLOSED" and "failure_count cb = 0"
      and "failure_threshold (cb_config cb) = int (length fs)" and "fs \<noteq> []"
      and "\<forall>f \<in> set fs. \<forall>w. isl (fst (f w))"
      and "call_seq fs cb w = (cb', w')"
      and "\<forall>t. last_failure_time cb' = Some t \<longrightarrow>
             clock w' (ticks w') - t < recovery_timeout (cb_config cb')"
  shows "(\<forall>k < length fs. state (fst (call_seq (take k fs) cb w)) = CLOSED) \<and>
         state cb' = OPEN \<and>
         fst (call g cb' w') = Inl CircuitOpen \<and>
         protected_calls (snd (snd (call g cb' w'))) = protected_calls w' \<and>
         state (fst (snd (call g cb' w'))) = OPEN \<and>
         (\<forall>cb0 w0. state cb0 = OPEN \<and>
            (\<forall>t. last_failure_time cb0 = Some t \<longrightarrow>
               clock w0 (ticks w0) - t < recovery_timeout (cb_config cb0)) \<longrightarrow>
            fst (call g cb0 w0) = Inl CircuitOpen \<and>
            protected_calls (snd (snd (call g cb0 w0))) = protected_calls w0)"
proof -
  have before: "state (fst (call_seq (take k fs) cb w)) = CLOSED \<and>
        failure_count (fst (call_seq (take k fs) cb w)) = int k \<and>
        cb_config (fst (call_seq (take k fs) cb w)) = cb_config cb" if "k < length fs" for k
  proof -
    have "\<forall>f \<in> set (take k fs). \<forall>w. isl (fst (f w))"
      using assms(5) by (meson in_set_takeD)
    moreover have "failure_count cb + int (length (take k fs)) < failure_threshold (cb_config cb)"
      using assms(2,3) that by simp
    ultimately show ?thesis
      using call_seq_failures [OF assms(1), of "take k fs" w] assms(2) that by simp
  qed
  obtain gs f where fs: "fs = gs @ [f]"
    using assms(4) by (metis rev_exhaust)
  obtain cb1 w1 where pre: "call_seq gs cb w = (cb1, w1)" by (cases "call_seq gs cb w")
  have "length gs < length fs" using fs by simp
  from before [OF this] fs pre
  have cb1: "state cb1 = CLOSED" "failure_count cb1 = int (length gs)" "cb_config cb1 = cb_config cb"
    by auto
  have last: "call_seq fs cb w = (fst (snd (call f cb1 w1)), snd (snd (call f cb1 w1)))"
    using fs pre by (simp add: call_seq_append split: prod.splits)
  have "isl (fst (f (w1\<lparr>protected_calls := Suc (protected_calls w1)\<rparr>)))"
    using assms(5) fs by simp
  with call_failure [of cb1 f w1] cb1 assms(3) fs
  have "state (fst (snd (call f cb1 w1))) = OPEN" by simp
  moreover have "cb' = fst (snd (call f cb1 w1))"
    using last assms(6) by (metis fst_conv)
  ultimately have opened: "state cb' = OPEN" by simp
  have rej: "fst (call g cb0 w0) = Inl CircuitOpen \<and> fst (snd (call g cb0 w0)) = cb0 \<and>
         protected_calls (snd (snd (call g cb0 w0))) = protected_calls w0"
    if "state cb0 = OPEN" and "\<forall>t. last_failure_time cb0 = Some t \<longrightarrow>
               clock w0 (ticks w0) - t < recovery_timeout (cb_config cb0)" for cb0 and w0 :: "'a world"
    using call_rejects [OF that] .
  show ?thesis
    using before opened rej [OF opened assms(7)] rej by simp
qed

theorem breaker_opens_at_threshold_and_rejects_witness:
  "state demo_breaker = CLOSED \<and> failure_count demo_breaker = 0 \<and>
   failure_threshold (cb_config demo_breaker) = int (length [fail_func, fail_func]) \<and>
   state (fst (call_seq (take 1 [fail_func, fail_func]) demo_breaker demo_world)) = CLOSED \<and>
   state opened_breaker = OPEN \<and>
   fst (call success_func opened_breaker (demo_world\<lparr>ticks := 2, protected_calls := 2\<rparr>))
     = Inl CircuitOpen \<and>
   protected_calls
     (snd (snd (call success_func opened_breaker (demo_world\<lparr>ticks := 2, protected_calls := 2\<rparr>))))
     = 2"
proof -
  have early: "\<forall>t. last_failure_time opened_breaker = Some t \<longrightarrow>
      clock (demo_world\<lparr>ticks := 2, protected_calls := 2\<rparr>)
        (ticks (demo_world\<lparr>ticks := 2, protected_calls := 2\<rparr>)) - t
        < recovery_timeout (cb_config opened_breaker)"
    by (simp add: opened_breaker_def demo_world_def)
  have fails: "\<forall>f \<in> set [fail_func, fail_func]. \<forall>w. isl (fst (f w))"
    by (simp add: fail_func_def)
  have start: "state demo_breaker = CLOSED" "failure_count demo_breaker = 0"
    "failure_threshold (cb_config demo_breaker) = int (length [fail_func, fail_func])"
    "[fail_func, fail_func] \<noteq> []"
    by (simp_all add: demo_breaker_def CircuitBreaker_init_def)
  note T = breaker_opens_at_threshold_and_rejects
         [OF start fails demo_breaker_opened early, of success_func]
  have "state (fst (call_seq (take 1 [fail_func, fail_func]) demo_breaker demo_world)) = CLOSED"
    using T [THEN conjunct1, rule_format, of 1] by simp
  then show ?thesis using T start by simp
qed

text \<open>
  Claim C7. Take a breaker that is \<open>OPEN\<close> and a call whose clock reading is at least
  \<open>recovery_timeout\<close> after \<open>last_failure_time\<close> (a time that Python does not take for false,
  that is, not \<open>0\<close>). The protected function is entered; when it returns \<open>r\<close>, the call
  returns \<open>r\<close>, the breaker is \<open>CLOSED\<close> and its failure count is \<open>0\<close>.
\<close>

theorem breaker_recovers:
  assumes "state cb = OPEN" and "last_failure_time cb = Some t" and "t \<noteq> 0"
      and "clock w (ticks w) - t \<ge> recovery_timeout (cb_config cb)"
      and "f ((snd (time_time w))\<lparr>protected_calls := Suc (protected_calls w)\<rparr>) = (Inr r, w')"
  shows "fst (call f cb w) = Inr r \<and> snd (snd (call f cb w)) = w' \<and>
         state (fst (snd (call f cb w))) = CLOSED \<and>
         failure_count (fst (snd (call f cb w))) = 0"
  using assms
  by (simp add: call_def should_attempt_reset_def time_time_def on_success_def Let_def)


theorem breaker_recovers_witness:
  "state opened_breaker = OPEN \<and> last_failure_time opened_breaker = Some 1001 \<and>
   clock (demo_world\<lparr>ticks := 100\<rparr>) (ticks (demo_world\<lparr>ticks := 100\<rparr>)) - 1001
     \<ge> recovery_timeout (cb_config opened_breaker) \<and>
   fst (call success_func opened_breaker (demo_world\<lparr>ticks := 100\<rparr>)) = Inr ''success'' \<and>
   state (fst (snd (call success_func opened_breaker (demo_world\<lparr>ticks := 100\<rparr>)))) = CLOSED \<and>
   failure_count (fst (snd (call success_func opened_breaker (demo_world\<lparr>ticks := 100\<rparr>)))) = 0"
proof -
  have a: "state opened_breaker = OPEN" "last_failure_time opened_breaker = Some 1001"
    "(1001 :: real) \<noteq> 0"
    "clock (demo_world\<lparr>ticks := 100\<rparr>) (ticks (demo_world\<lparr>ticks := 100\<rparr>)) - 1001
       \<ge> recovery_timeout (cb_config opened_breaker)"
    by (simp_all add: opened_breaker_def demo_world_def)
  have b: "success_func ((snd (time_time (demo_world\<lparr>ticks := 100\<rparr>)))
             \<lparr>protected_calls := Suc (protected_calls (demo_world\<lparr>ticks := 100\<rparr>))\<rparr>)
           = (Inr ''success'', (snd (time_time (demo_world\<lparr>ticks := 100\<rparr>)))
             \<lparr>protected_calls := Suc (protected_calls (demo_world\<lparr>ticks := 100\<rparr>))\<rparr>)"
    by (simp add: success_func_def)
  from breaker_recovers
         [of opened_breaker 1001 "demo_world\<lparr>ticks := 100\<rparr>" success_func "''success''", OF a b]
  show ?thesis using a by simp
qed

subsection \<open>RequestCache: the index file\<close>

lemma demo_key: "get_cache_key demo_lib ''GET'' ''u'' None = ''md5-GET:u''"
  by (simp add: get_cache_key_def demo_lib_def)



text \<open>
  Claim C3, as the specification states it, fails: \<^verbatim>\<open>_save_index\<close> opens the index file
  itself for writing, and a run cut after that step leaves a file that is neither the old
  index nor the new one.
\<close>

theorem save_index_not_atomic:
  "\<not> survives_crash (index_file (cache_dir demo_cache)) (save_index_ops demo_cache) demo_world"
  by (simp add: survives_crash_def save_index_ops_def demo_cache_def demo_world_def index_file_def)

text \<open>
  Claim C3, amended. When the index file can be written, \<^verbatim>\<open>_save_index\<close> writes the index
  into the index file in place: no other path is touched, between its two steps the file
  is a partly written one, and \<^verbatim>\<open>_load_index\<close> reads such a file as the empty index.
\<close>

theorem save_index_in_place:
  assumes "\<not> unwritable w (index_file (cache_dir c))"
  shows "save_index c w =
           (Inr (), w\<lparr>files := (files w)(index_file (cache_dir c) \<mapsto> Index_doc (cache_index c))\<rparr>) \<and>
         crash_states (save_index_ops c) w =
           [w,
            w\<lparr>files := (files w)(index_file (cache_dir c) \<mapsto> Partial)\<rparr>,
            w\<lparr>files := (files w)(index_file (cache_dir c) \<mapsto> Index_doc (cache_index c))\<rparr>] \<and>
         load_index (cache_dir c) (w\<lparr>files := (files w)(index_file (cache_dir c) \<mapsto> Partial)\<rparr>) = []"
  using assms
  by (simp add: save_index_def save_index_ops_def load_index_def)

theorem save_index_in_place_witness:
  "\<not> unwritable demo_world (index_file (cache_dir demo_cache)) \<and>
   save_index demo_cache demo_world =
     (Inr (), demo_world\<lparr>files := (files demo_world)(''cache/index.json'' \<mapsto> Index_doc [])\<rparr>) \<and>
   crash_states (save_index_ops demo_cache) demo_world =
     [demo_world,
      demo_world\<lparr>files := (files demo_world)(''cache/index.json'' \<mapsto> Partial)\<rparr>,
      demo_world\<lparr>files := (files demo_world)(''cache/index.json'' \<mapsto> Index_doc [])\<rparr>] \<and>
   load_index ''cache'' (demo_world\<lparr>files := (files demo_world)(''cache/index.json'' \<mapsto> Partial)\<rparr>)
     = []"
proof -
  have a: "\<not> unwritable demo_world (index_file (cache_dir demo_cache))"
    by (simp add: demo_world_def)
  from save_index_in_place [OF a] show ?thesis
    using a by (simp add: index_file_def demo_cache_def)
qed

subsection \<open>RequestCache: expiry\<close>

lemma cache_get_expired:
  assumes "map_of (cache_index c) (get_cache_key L m u p) = Some e"
      and "clock w (ticks w) - timestamp e \<ge> of_int (ttl c)"
      and "\<not> unwritable w (index_file (cache_dir c))"
  shows "fst (cache_get L c m u p w) = Inr None \<and>
         map_of (cache_index (fst (snd (cache_get L c m u p w)))) (get_cache_key L m u p) = None \<and>
         (\<forall>q. q \<noteq> index_file (cache_dir c) \<longrightarrow>
            files (snd (snd (cache_get L c m u p w))) q = files w q)"
  using assms
  by (simp add: cache_get_def time_time_def save_index_def save_index_ops_def Let_def
        delete_conv')

lemma enforce_max_size_unlinks:
  assumes "int (length (cache_index c)) \<ge> max_size c"
      and "oldest (cache_index c) = Some (k, e)"
      and "enforce_max_size c w = (Inr (), c0, w0)"
  shows "map_of (cache_index c0) k = None \<and> files w0 (cache_file (cache_dir c) k) = None"
  using assms
  by (auto simp: enforce_max_size_def Let_def delete_conv' split: if_splits)

text \<open>
  Claim C4 at a concrete cache: the entry written by \<^verbatim>\<open>set("GET", "u", "v")\<close> at clock
  reading 1000 with a ttl of 300 is read at clock reading 1400. \<^verbatim>\<open>get\<close> returns nothing and
  drops the index entry, and the payload file is still there.
\<close>

theorem expired_entry_payload_file_remains:
  "map_of (cache_index cached_cache) ''md5-GET:u''
     = Some \<lparr>timestamp = 1000, entry_url = ''u'', entry_method = ''GET''\<rparr> \<and>
   files cached_world ''cache/md5-GET:u.json'' = Some (Payload_doc (Some ''v'')) \<and>
   clock cached_world 400 - 1000 \<ge> of_int (ttl cached_cache) \<and>
   fst (cache_get demo_lib cached_cache ''GET'' ''u'' None (cached_world\<lparr>ticks := 400\<rparr>))
     = Inr None \<and>
   cache_index (fst (snd (cache_get demo_lib cached_cache ''GET'' ''u'' None
                            (cached_world\<lparr>ticks := 400\<rparr>)))) = [] \<and>
   files (snd (snd (cache_get demo_lib cached_cache ''GET'' ''u'' None
                      (cached_world\<lparr>ticks := 400\<rparr>)))) ''cache/md5-GET:u.json''
     = Some (Payload_doc (Some ''v''))"
  by (simp add: cache_get_def demo_key cached_cache_def cached_world_def demo_cache_def
        demo_world_def save_index_def save_index_ops_def time_time_def cache_file_def
        index_file_def Let_def)


subsection \<open>RequestCache: round trip\<close>



text \<open>
  The cache key tells requests apart when the hash does not collide and the serializer
  gives different texts for different dictionaries.
\<close>

lemma no_params_same_key: "get_cache_key L m u (Some []) = get_cache_key L m u None"
  by (simp add: get_cache_key_def)








text \<open>
  Params that are \<^verbatim>\<open>None\<close> and params that are the empty dictionary carry the same
  parameters and have the same key: what was set with the one is returned with the other.
\<close>

lemma empty_params_same_entry:
  "fst (cache_get demo_lib cached_cache ''GET'' ''u'' (Some []) cached_world) = Inr (Some ''v'')"
  by code_simp




subsection \<open>CheckpointManager: saving and resuming\<close>

lemma save_checkpoint_skipped:
  assumes "current_state m = Some st" and "checkpoint_file m = Some file"
      and "checkpoint_interval m \<noteq> 0"
      and "(save_counter m + 1) mod checkpoint_interval m \<noteq> 0"
  shows "save_checkpoint L False m w = (Inr (), m\<lparr>save_counter := save_counter m + 1\<rparr>, w)"
  using assms by (simp add: save_checkpoint_def Let_def)

lemma save_checkpoint_forced:
  assumes "current_state m = Some st" and "checkpoint_file m = Some file"
      and "with_suffix file ''.tmp'' = Inr temp_file"
      and "\<not> unwritable w temp_file" and "\<not> unwritable w file"
  shows "files (snd (snd (save_checkpoint L True m w))) file
           = Some (State_doc (to_dict L (st\<lparr>last_updated := isoformat L (clock w (ticks w))\<rparr>)))"
  using assms
  by (simp add: save_checkpoint_def Let_def datetime_now_isoformat_def time_time_def)

lemma start_new_export_skips_save:
  assumes "checkpoint_interval m \<noteq> 0"
      and "(save_counter m + 1) mod checkpoint_interval m \<noteq> 0"
  shows "files (snd (snd (start_new_export L m lbl date prof w))) = files w \<and>
         \<not> isl (fst (start_new_export L m lbl date prof w))"
  using assms
  by (simp add: start_new_export_def save_checkpoint_def Let_def create_export_id_def
        datetime_now_isoformat_def time_time_def split: prod.splits)

text \<open>
  Claim C1 at a manager as \<^verbatim>\<open>__init__\<close> builds it (counter 0, interval 10):
  \<^verbatim>\<open>start_new_export\<close> returns the new state, the counter is 1, and no file has been
  written, the checkpoint file included. The save is asked for without \<^verbatim>\<open>force\<close> and the
  counter is not a multiple of the interval.
\<close>

theorem start_new_export_writes_nothing:
  "save_counter (CheckpointManager_init ''.checkpoints'') = 0 \<and>
   checkpoint_interval (CheckpointManager_init ''.checkpoints'') = 10 \<and>
   \<not> isl (fst (start_new_export demo_lib (CheckpointManager_init ''.checkpoints'')
                 ''L'' ''2024-01-01'' ''balanced'' demo_world)) \<and>
   checkpoint_file (fst (snd (start_new_export demo_lib (CheckpointManager_init ''.checkpoints'')
               ''L'' ''2024-01-01'' ''balanced'' demo_world)))
     = Some ''.checkpoints/checkpoint_md5-L:2024-0.json'' \<and>
   save_counter (fst (snd (start_new_export demo_lib (CheckpointManager_init ''.checkpoints'')
               ''L'' ''2024-01-01'' ''balanced'' demo_world))) = 1 \<and>
   files (snd (snd (start_new_export demo_lib (CheckpointManager_init ''.checkpoints'')
               ''L'' ''2024-01-01'' ''balanced'' demo_world)))
     ''.checkpoints/checkpoint_md5-L:2024-0.json'' = None \<and>
   files (snd (snd (start_new_export demo_lib (CheckpointManager_init ''.checkpoints'')
               ''L'' ''2024-01-01'' ''balanced'' demo_world))) = files demo_world"
  by (simp add: start_new_export_def save_checkpoint_def Let_def create_export_id_def
        datetime_now_isoformat_def time_time_def CheckpointManager_init_def demo_lib_def
        demo_world_def path_join_def)


text \<open>
  Claim C9. When the file that \<^verbatim>\<open>resume_export\<close> resolves (the name as given if it
  exists, else under the checkpoint directory) holds an export state, the call returns
  that state with its two lists of exported IDs turned into sets and makes it the current
  state; an item of the list of pages, or of issues, is then answered \<open>True\<close> by the query,
  which reads the manager alone. The world, with its count of HTTP calls, is unchanged.
\<close>

theorem resume_restores_exported_ids:
  assumes "files w (if files w file \<noteq> None then file else path_join (checkpoint_dir m) file)
             = Some (State_doc d)"
  shows "fst (resume_export m file w) = Some (from_dict d) \<and>
         confluence_pages_exported (from_dict d) = set (confluence_pages_exported d) \<and>
         jira_issues_exported (from_dict d) = set (jira_issues_exported d) \<and>
         current_state (fst (snd (resume_export m file w))) = Some (from_dict d) \<and>
         (x \<in> set (confluence_pages_exported d) \<longrightarrow>
            is_confluence_page_exported (fst (snd (resume_export m file w))) x) \<and>
         (y \<in> set (jira_issues_exported d) \<longrightarrow>
            is_jira_issue_exported (fst (snd (resume_export m file w))) y) \<and>
         snd (snd (resume_export m file w)) = w"
  using assms
  by (simp add: resume_export_def Let_def from_dict_def post_init_def
        is_confluence_page_exported_def is_jira_issue_exported_def)

theorem resume_restores_exported_ids_witness:
  "files resume_world
     (if files resume_world ''checkpoint_abc.json'' \<noteq> None then ''checkpoint_abc.json''
      else path_join (checkpoint_dir (CheckpointManager_init ''.checkpoints''))
             ''checkpoint_abc.json'')
     = Some (State_doc demo_checkpoint) \<and>
   ''456'' \<in> set (confluence_pages_exported demo_checkpoint) \<and>
   ''PROJ-1'' \<in> set (jira_issues_exported demo_checkpoint) \<and>
   fst (resume_export (CheckpointManager_init ''.checkpoints'') ''checkpoint_abc.json'' resume_world)
     = Some (from_dict demo_checkpoint) \<and>
   is_confluence_page_exported
     (fst (snd (resume_export (CheckpointManager_init ''.checkpoints'') ''checkpoint_abc.json''
                  resume_world))) ''456'' \<and>
   is_jira_issue_exported
     (fst (snd (resume_export (CheckpointManager_init ''.checkpoints'') ''checkpoint_abc.json''
                  resume_world))) ''PROJ-1'' \<and>
   snd (snd (resume_export (CheckpointManager_init ''.checkpoints'') ''checkpoint_abc.json''
               resume_world)) = resume_world"
proof -
  have a: "files resume_world
     (if files resume_world ''checkpoint_abc.json'' \<noteq> None then ''checkpoint_abc.json''
      else path_join (checkpoint_dir (CheckpointManager_init ''.checkpoints''))
             ''checkpoint_abc.json'')
     = Some (State_doc demo_checkpoint)"
    by (simp add: resume_world_def demo_world_def path_join_def CheckpointManager_init_def)
  have b: "''456'' \<in> set (confluence_pages_exported demo_checkpoint)"
    "''PROJ-1'' \<in> set (jira_issues_exported demo_checkpoint)"
    by (simp_all add: demo_checkpoint_def)
  from resume_restores_exported_ids [OF a, of "''456''" "''PROJ-1''"] show ?thesis using a b by simp
qed

text \<open>
  Claim C10. With no current state, each of the operations that change a manager returns
  without an exception and leaves the manager and the world, files included, as they
  were.
\<close>

theorem no_state_no_op:
  assumes "current_state m = None"
  shows "save_checkpoint L force m w = (Inr (), m, w) \<and>
         update_confluence_progress L m space_key page_id w = (Inr (), m, w) \<and>
         update_jira_progress L m project_key issue_key w = (Inr (), m, w) \<and>
         mark_confluence_space_complete L m space_key w = (Inr (), m, w) \<and>
         mark_jira_project_complete L m project_key w = (Inr (), m, w) \<and>
         record_error L m error_type error_message context w = (Inr (), m, w) \<and>
         complete_export L m w = (Inr (), m, w)"
  using assms
  by (simp add: save_checkpoint_def update_confluence_progress_def update_jira_progress_def
        mark_confluence_space_complete_def mark_jira_project_complete_def record_error_def
        complete_export_def)

theorem no_state_no_op_witness:
  "current_state (CheckpointManager_init ''.checkpoints'') = None \<and>
   save_checkpoint demo_lib True (CheckpointManager_init ''.checkpoints'') demo_world
     = (Inr (), CheckpointManager_init ''.checkpoints'', demo_world) \<and>
   save_checkpoint demo_lib False (CheckpointManager_init ''.checkpoints'') demo_world
     = (Inr (), CheckpointManager_init ''.checkpoints'', demo_world) \<and>
   update_confluence_progress demo_lib (CheckpointManager_init ''.checkpoints'') ''DOCS'' ''123''
     demo_world = (Inr (), CheckpointManager_init ''.checkpoints'', demo_world) \<and>
   record_error demo_lib (CheckpointManager_init ''.checkpoints'') ''api'' ''boom'' [] demo_world
     = (Inr (), CheckpointManager_init ''.checkpoints'', demo_world) \<and>
   complete_export demo_lib (CheckpointManager_init ''.checkpoints'') demo_world
     = (Inr (), CheckpointManager_init ''.checkpoints'', demo_world)"
proof -
  have a: "current_state (CheckpointManager_init ''.checkpoints'') = None"
    by (simp add: CheckpointManager_init_def)
  from no_state_no_op [OF a, of demo_lib True demo_world "''DOCS''" "''123''" "''PROJ''"
        "''PROJ-1''" "''api''" "''boom''" "[]"]
       no_state_no_op [OF a, of demo_lib False demo_world "''DOCS''" "''123''" "''PROJ''"
        "''PROJ-1''" "''api''" "''boom''" "[]"]
  show ?thesis using a by simp
qed

subsection \<open>ResilientAPIClient: the retry loop\<close>






declare attempts.simps [simp del]











text \<open>The largest float as a numeral, \<open>2\<^sup>1\<^sup>0\<^sup>2\<^sup>4 - 2\<^sup>9\<^sup>7\<^sup>1\<close>, for evaluating the examples.\<close>

lemma float_max_code [code]:
  "float_max = 179769313486231570814527423731704356798070567525844996598917476803157260780028538760589558632766878171540458953514382464234321326889464182768467546703537516986049910576551282076245490090389328944075868508455133942304583236903222948165808559332123348274797826204144723168738177180919299881250404026184124858368"
  by (simp add: float_max_def)

lemma balanced_request:
  "fst (request demo_lib ''GET'' ''u'' True None balanced_client slow_world)
     = Inl (RequestException (Some 503)) \<and>
   http_calls (snd (snd (request demo_lib ''GET'' ''u'' True None balanced_client slow_world)))
     = 4"
  by code_simp

text \<open>
  A power out of the range of floats ends the loop from inside the handler: with the base
  \<open>10\<^sup>2\<^sup>0\<^sup>0\<close> and three retries, the backoff of the third round raises, after three calls.
\<close>

lemma backoff_overflow_ends_loop:
  "fst (request demo_lib ''GET'' ''u'' True None huge_base_client slow_world)
     = Inl OverflowError \<and>
   http_calls (snd (snd (request demo_lib ''GET'' ''u'' True None huge_base_client slow_world)))
     = 3"
  by code_simp




end
